theory Spec2Isabelle
  imports Main "HOL-Library.Word" "HOL-Library.AList"
begin

unbundle bit_operations_syntax

section \<open>Go values: bytes, strings, maps, errors\<close>

text \<open>
  The authentication center of the gateway (package \<open>auth\<close>, type \<open>Center\<close>) is glue
  over libraries: hex, RSA, zstd, protobuf, the regular expression of the Authorization
  header, the AWS v4 signer. The functions of the package are embedded here one to one,
  in Go's own shape: a function that returns \<open>(value, error)\<close> returns a pair whose second
  component is an \<open>error option\<close> (\<open>None\<close> is Go's \<open>nil\<close>), and a pointer result that can be
  \<open>nil\<close> is an \<open>option\<close>.

  A Go \<open>[]byte\<close> is a list of 8-bit words, a Go \<open>string\<close> a list of characters (bytes).
  A Go map is an association list whose first entry for a key is the key's value.
\<close>

type_synonym byte = "8 word"
type_synonym bytes = "byte list"

text \<open>
  Error values. \<open>errors.New\<close> and \<open>errors.Wrap\<close> are those of \<open>github.com/pkg/errors\<close>;
  the two \<open>hex_\<close> constructors are the errors of \<open>encoding/hex\<close>; \<open>lib_error\<close> stands for
  an error value produced inside any other library.
\<close>

datatype error =
    errors_New string
  | withMessage error string
  | hex_ErrLength
  | hex_InvalidByteError byte
  | lib_error string

text \<open>
  \<open>errors.Wrap(err, message)\<close>: ``If err is nil, Wrap returns nil.''
\<close>

fun errors_Wrap :: "error option \<Rightarrow> string \<Rightarrow> error option" where
  "errors_Wrap None message = None"
| "errors_Wrap (Some err) message = Some (withMessage err message)"

text \<open>
  Indexing a Go map: a missing key gives the zero value of the value type
  (\<open>""\<close> for a string, the nil slice for \<open>[]string\<close>). \<open>len\<close> of a map counts its keys.
\<close>

definition index_string :: "(string \<times> string) list \<Rightarrow> string \<Rightarrow> string" where
  "index_string m k = (case map_of m k of None \<Rightarrow> [] | Some v \<Rightarrow> v)"

definition index_strings :: "(string \<times> string list) list \<Rightarrow> string \<Rightarrow> string list" where
  "index_strings m k = (case map_of m k of None \<Rightarrow> [] | Some vs \<Rightarrow> vs)"

definition len_map :: "(string \<times> 'v) list \<Rightarrow> nat" where
  "len_map m = length (remdups (map fst m))"

subsection \<open>encoding/hex\<close>

definition hextable :: string where
  "hextable = ''0123456789abcdef''"

definition hex_EncodeToString :: "bytes \<Rightarrow> string" where
  "hex_EncodeToString src =
     concat (map (\<lambda>v. [hextable ! unat (drop_bit 4 v), hextable ! unat (v AND 0x0f)]) src)"

definition fromHexChar :: "byte \<Rightarrow> byte option" where
  "fromHexChar c =
     (if of_char CHR ''0'' \<le> c \<and> c \<le> of_char CHR ''9'' then Some (c - of_char CHR ''0'')
      else if of_char CHR ''a'' \<le> c \<and> c \<le> of_char CHR ''f''
        then Some (c - of_char CHR ''a'' + 10)
      else if of_char CHR ''A'' \<le> c \<and> c \<le> of_char CHR ''F''
        then Some (c - of_char CHR ''A'' + 10)
      else None)"

text \<open>
  \<open>hex.Decode\<close> walks the source two bytes at a time and stops at the first byte that is
  not a hexadecimal digit; a source of odd length is \<open>ErrLength\<close> unless its last byte is
  invalid. The bytes decoded before the error are returned with it.
\<close>

fun hex_Decode :: "bytes \<Rightarrow> bytes \<times> error option" where
  "hex_Decode (a # b # src) =
     (case fromHexChar a of
        None \<Rightarrow> ([], Some (hex_InvalidByteError a))
      | Some x \<Rightarrow>
          (case fromHexChar b of
             None \<Rightarrow> ([], Some (hex_InvalidByteError b))
           | Some y \<Rightarrow>
               (let (dst, err) = hex_Decode src in ((push_bit 4 x OR y) # dst, err))))"
| "hex_Decode [a] =
     (case fromHexChar a of
        None \<Rightarrow> ([], Some (hex_InvalidByteError a))
      | Some x \<Rightarrow> ([], Some hex_ErrLength))"
| "hex_Decode [] = ([], None)"

definition hex_DecodeString :: "string \<Rightarrow> bytes \<times> error option" where
  "hex_DecodeString s = hex_Decode (map of_char s)"

subsection \<open>strings.Split on a one-byte separator\<close>

text \<open>
  \<open>strings.Split(s, sep)\<close> for a separator of one byte (the call site passes \<open>";"\<close>):
  the pieces of \<open>s\<close> between the occurrences of the separator, \<open>Count(s, sep) + 1\<close> of them.
\<close>

fun strings_Split :: "string \<Rightarrow> char \<Rightarrow> string list" where
  "strings_Split [] sep = [[]]"
| "strings_Split (c # s) sep =
     (if c = sep then [] # strings_Split s sep
      else (case strings_Split s sep of
              [] \<Rightarrow> [[c]]
            | piece # pieces \<Rightarrow> (c # piece) # pieces))"

section \<open>The HTTP request\<close>

text \<open>
  A reader (\<open>io.Reader\<close>): the bytes it still holds, and the error that reading it to the
  end meets after them (\<open>None\<close> when it ends with EOF). \<open>ioutil.ReadAll\<close> returns both and
  leaves the reader drained.
\<close>

record reader =
  pending :: bytes
  failure :: "error option"

definition bytes_NewReader :: "bytes \<Rightarrow> reader" where
  "bytes_NewReader b = \<lparr>pending = b, failure = None\<rparr>"

definition drained :: "reader \<Rightarrow> reader" where
  "drained r = r\<lparr>pending := []\<rparr>"

definition ioutil_ReadAll :: "reader \<Rightarrow> (bytes \<times> error option) \<times> reader" where
  "ioutil_ReadAll r = ((pending r, failure r), drained r)"

record url_URL =
  Scheme :: string
  URL_Host :: string
  Path :: string
  RawQuery :: string

type_synonym http_Header = "(string \<times> string list) list"
type_synonym url_Values = "(string \<times> string list) list"

record http_Request =
  Method :: string
  URL :: url_URL
  Header :: http_Header
  Body :: "reader option"
  Host :: string

text \<open>\<open>url.Values.Get\<close>: the first value of the key, \<open>""\<close> when it has none.\<close>

definition Values_Get :: "url_Values \<Rightarrow> string \<Rightarrow> string" where
  "Values_Get v key = (let vs = index_strings v key in if length vs = 0 then [] else hd vs)"

text \<open>
  \<open>http.Header.Get\<close>: the first value of the canonical form of the key. Both call sites
  pass a key that is its own canonical form (\<open>X-Amz-Date\<close>, \<open>Authorization\<close>).
\<close>

definition Header_Get :: "http_Header \<Rightarrow> string \<Rightarrow> string" where
  "Header_Get h key = (let v = index_strings h key in if length v = 0 then [] else hd v)"

record credentials_Value =
  AccessKeyID :: string
  SecretAccessKey :: string
  SessionToken :: string

definition NewStaticCredentials :: "string \<Rightarrow> string \<Rightarrow> string \<Rightarrow> credentials_Value" where
  "NewStaticCredentials ident secret token =
     \<lparr>AccessKeyID = ident, SecretAccessKey = secret, SessionToken = token\<rparr>"

section \<open>The libraries and helpers the center calls\<close>

text \<open>
  What the center calls and this development does not look into is a parameter, a field
  of the record \<open>libs\<close>:
  \<^item> \<open>Marshal\<close>, \<open>Unmarshal\<close>: the protobuf codec of \<open>service.BearerTokenMsg\<close>
    (\<open>Unmarshal data\<close> is \<open>new(service.BearerTokenMsg)\<close> followed by \<open>Unmarshal(data)\<close>);
  \<^item> \<open>encrypt\<close>, \<open>decrypt\<close>, \<open>sha256Hash\<close>: the package's helpers over RSA and SHA-256
    (\<open>encrypt\<close> is one call of the helper, with the entropy it draws);
  \<^item> \<open>zstd_EncodeAll src dst\<close>, \<open>zstd_DecodeAll input dst\<close>: the center's zstd encoder and
    decoder;
  \<^item> \<open>getSubmatches\<close>: the named captures of \<open>authorizationFieldRegexp\<close> in a string, as
    a map from capture name to captured text;
  \<^item> \<open>url_ParseQuery\<close>, \<open>time_Parse layout value\<close>, \<open>strings_EqualFold\<close>: the standard
    library;
  \<^item> \<open>v4_Sign creds r body service region signTime\<close>: the AWS v4 signer; it returns the
    request as signing leaves it, and the error.
  The type variables are the bearer token, the RSA public and private key and
  \<open>time.Time\<close>.
\<close>

record ('t, 'pk, 'sk, 'tm) libs =
  Marshal :: "'t \<Rightarrow> bytes \<times> error option"
  Unmarshal :: "bytes \<Rightarrow> 't \<times> error option"
  encrypt :: "'pk \<Rightarrow> bytes \<Rightarrow> bytes \<times> error option"
  decrypt :: "'sk \<Rightarrow> bytes \<Rightarrow> bytes \<times> error option"
  sha256Hash :: "bytes \<Rightarrow> bytes"
  zstd_EncodeAll :: "bytes \<Rightarrow> bytes \<Rightarrow> bytes"
  zstd_DecodeAll :: "bytes \<Rightarrow> bytes \<Rightarrow> bytes \<times> error option"
  getSubmatches :: "string \<Rightarrow> (string \<times> string) list"
  url_ParseQuery :: "string \<Rightarrow> url_Values \<times> error option"
  time_Parse :: "string \<Rightarrow> string \<Rightarrow> 'tm \<times> error option"
  strings_EqualFold :: "string \<Rightarrow> string \<Rightarrow> bool"
  v4_Sign :: "credentials_Value \<Rightarrow> http_Request \<Rightarrow> reader option \<Rightarrow> string \<Rightarrow> string
                \<Rightarrow> 'tm \<Rightarrow> http_Request \<times> error option"

text \<open>\<open>URL.Query()\<close> parses \<open>RawQuery\<close> and drops the error.\<close>

definition URL_Query :: "('t, 'pk, 'sk, 'tm) libs \<Rightarrow> url_URL \<Rightarrow> url_Values" where
  "URL_Query L u = fst (url_ParseQuery L (RawQuery u))"

section \<open>The center\<close>

text \<open>
  The fields of \<open>Center\<close> that hold data. (Its logger, submatcher, zstd encoder and
  decoder are the objects whose behaviour \<open>libs\<close> gives.) \<open>'nk\<close> is the pair of ECDSA keys.
\<close>

record ('pk, 'sk, 'nk) Center =
  neofsKeys :: 'nk
  ownerID :: bytes
  wifString :: string
  userAuthKeys_PrivateKey :: 'sk
  userAuthKeys_PublicKey :: 'pk

definition compress :: "('t, 'pk, 'sk, 'tm) libs \<Rightarrow> ('pk, 'sk, 'nk) Center \<Rightarrow> bytes \<Rightarrow> bytes" where
  "compress L center data = zstd_EncodeAll L data []"

definition decompress ::
  "('t, 'pk, 'sk, 'tm) libs \<Rightarrow> ('pk, 'sk, 'nk) Center \<Rightarrow> bytes \<Rightarrow> bytes \<times> error option" where
  "decompress L center data = zstd_DecodeAll L data []"

definition packBearerToken ::
  "('t, 'pk, 'sk, 'tm) libs \<Rightarrow> ('pk, 'sk, 'nk) Center \<Rightarrow> 't \<Rightarrow> string \<times> string \<times> error option"
where
  "packBearerToken L center bearerToken =
     (let (data, err) = Marshal L bearerToken in
      if err \<noteq> None then ([], [], errors_Wrap err ''failed to marshal bearer token'')
      else
        let (encryptedKeyID, err) =
              encrypt L (userAuthKeys_PublicKey center) (compress L center data) in
        if err \<noteq> None then ([], [], errors_Wrap err ''failed to encrypt bearer token bytes'')
        else
          let accessKeyID = hex_EncodeToString encryptedKeyID;
              secretAccessKey = hex_EncodeToString (sha256Hash L data)
          in (accessKeyID, secretAccessKey, None))"

definition unpackBearerToken ::
  "('t, 'pk, 'sk, 'tm) libs \<Rightarrow> ('pk, 'sk, 'nk) Center \<Rightarrow> string
     \<Rightarrow> 't option \<times> string \<times> error option"
where
  "unpackBearerToken L center accessKeyID =
     (let (encryptedKeyID, err) = hex_DecodeString accessKeyID in
      if err \<noteq> None then (None, [], errors_Wrap err ''failed to decode HEX string'')
      else
        let (compressedKeyID, err) =
              decrypt L (userAuthKeys_PrivateKey center) encryptedKeyID in
        if err \<noteq> None then (None, [], errors_Wrap err ''failed to decrypt key ID'')
        else
          let (data, err) = decompress L center compressedKeyID in
          if err \<noteq> None then (None, [], errors_Wrap err ''failed to decompress key ID'')
          else
            let (bearerToken, err) = Unmarshal L data in
            if err \<noteq> None
            then (None, [], errors_Wrap err ''failed to unmarshal embedded bearer token'')
            else
              let secretAccessKey = hex_EncodeToString (sha256Hash L data)
              in (Some bearerToken, secretAccessKey, None))"

text \<open>
  \<open>readAndKeepBody\<close> returns the request as it leaves it, the reader over the payload
  (\<open>nil\<close> with an error) and the error. A request with no body gets the zero
  \<open>bytes.Reader\<close>, which reads as empty. When reading fails the request keeps its drained
  body.
\<close>

definition readAndKeepBody ::
  "http_Request \<Rightarrow> http_Request \<times> reader option \<times> error option" where
  "readAndKeepBody request =
     (case Body request of
        None \<Rightarrow> (request, Some (bytes_NewReader []), None)
      | Some b \<Rightarrow>
          (let ((payload, err), b') = ioutil_ReadAll b in
           if err \<noteq> None then (request\<lparr>Body := Some b'\<rparr>, None, err)
           else (request\<lparr>Body := Some (bytes_NewReader payload)\<rparr>,
                 Some (bytes_NewReader payload), None)))"

text \<open>
  Lines 164 to 172 of \<open>AuthenticationPassed\<close>: the clone of the request, its header map
  replaced by an empty one, then filled by the two nested loops. The outer loop ranges
  over the request's header map (in the order of the association list), the inner one
  over the signed header names; an assignment to a map is \<open>AList.update\<close>.
\<close>

definition referenceRequest ::
  "('t, 'pk, 'sk, 'tm) libs \<Rightarrow> http_Request \<Rightarrow> string list \<Rightarrow> http_Request" where
  "referenceRequest L request signedHeaderFieldsNames =
     (let otherRequest = request\<lparr>Header := []\<rparr> in
      fold (\<lambda>(hfn, hfvs) otherRequest.
              fold (\<lambda>shfn otherRequest.
                      if strings_EqualFold L hfn shfn
                      then otherRequest\<lparr>Header := AList.update hfn hfvs (Header otherRequest)\<rparr>
                      else otherRequest)
                   signedHeaderFieldsNames otherRequest)
           (Header request) otherRequest)"

text \<open>
  \<open>AuthenticationPassed\<close> returns the request as it leaves it (only \<open>readAndKeepBody\<close>
  touches it), the bearer token and the error. The clone shares the body reader of the
  request, so once \<open>readAndKeepBody\<close> has read it the clone's body is the drained reader;
  the signer is given the payload as its own argument.
\<close>

definition AuthenticationPassed ::
  "('t, 'pk, 'sk, 'tm) libs \<Rightarrow> ('pk, 'sk, 'nk) Center \<Rightarrow> http_Request
     \<Rightarrow> http_Request \<times> 't option \<times> error option"
where
  "AuthenticationPassed L center request =
     (let queryValues = URL_Query L (URL request) in
      if Values_Get queryValues ''X-Amz-Algorithm'' = ''AWS4-HMAC-SHA256''
      then (request, None, Some (errors_New ''pre-signed form of request is not supported''))
      else
      let authHeaderField = index_strings (Header request) ''Authorization'' in
      if length authHeaderField \<noteq> 1
      then (request, None,
            Some (errors_New ''unsupported request: wrong length of Authorization header field''))
      else
      let sms1 = getSubmatches L (hd authHeaderField) in
      if len_map sms1 \<noteq> 6
      then (request, None, Some (errors_New ''bad Authorization header field''))
      else
      let signedHeaderFieldsNames =
            strings_Split (index_string sms1 ''signed_header_fields'') CHR '';'' in
      if length signedHeaderFieldsNames = 0
      then (request, None, Some (errors_New ''wrong format of signed headers part''))
      else
      let (signatureDateTime, err) =
            time_Parse L ''20060102T150405Z'' (Header_Get (Header request) ''X-Amz-Date'') in
      if err \<noteq> None
      then (request, None, errors_Wrap err ''failed to parse x-amz-date header field'')
      else
      let accessKeyID = index_string sms1 ''access_key_id'';
          (bearerToken, secretAccessKey, err) = unpackBearerToken L center accessKeyID in
      if err \<noteq> None
      then (request, None, errors_Wrap err ''failed to unpack bearer token'')
      else
      let otherRequest = referenceRequest L request signedHeaderFieldsNames;
          awsCreds = NewStaticCredentials accessKeyID secretAccessKey [];
          (request', body, err) = readAndKeepBody request in
      if err \<noteq> None
      then (request', None, errors_Wrap err ''failed to read out request body'')
      else
      let otherRequest = otherRequest\<lparr>Body := map_option drained (Body request)\<rparr>;
          (otherRequest, err) =
            v4_Sign L awsCreds otherRequest body (index_string sms1 ''service'')
              (index_string sms1 ''region'') signatureDateTime in
      if err \<noteq> None
      then (request', None, errors_Wrap err ''failed to sign temporary HTTP request'')
      else
      let sms2 = getSubmatches L (Header_Get (Header otherRequest) ''Authorization'') in
      if index_string sms1 ''v4_signature'' \<noteq> index_string sms2 ''v4_signature''
      then (request', None, errors_Wrap err ''failed to pass authentication procedure'')
      else (request', bearerToken, None))"

section \<open>A small instance of the libraries\<close>

text \<open>
  Concrete inputs need concrete libraries. In this instance a bearer token is its own
  serialisation (the empty token does not serialise). Encryption under the key \<open>k\<close> puts
  the byte \<open>k\<close> in front and adds \<open>k\<close> to every byte, and refuses a plaintext of more than
  four bytes; decryption refuses a ciphertext that does not start with its key.
  Compression reverses the bytes. The Authorization header is six fields separated by
  \<open>/\<close>: access key id, date, region, service, signed header names, signature. The signer
  writes such a header, whose signature joins the secret, the payload in hex and the
  values of the headers it is given.
\<close>

definition toy_getSubmatches :: "string \<Rightarrow> (string \<times> string) list" where
  "toy_getSubmatches target =
     (case strings_Split target CHR ''/'' of
        [a, d, r, s, h, v] \<Rightarrow>
          [(''access_key_id'', a), (''date'', d), (''region'', r), (''service'', s),
           (''signed_header_fields'', h), (''v4_signature'', v)]
      | _ \<Rightarrow> [])"

definition toy_lower :: "char \<Rightarrow> char" where
  "toy_lower c =
     (case map_of (zip ''ABCDEFGHIJKLMNOPQRSTUVWXYZ'' ''abcdefghijklmnopqrstuvwxyz'') c of
        None \<Rightarrow> c
      | Some l \<Rightarrow> l)"

definition toy_Sign ::
  "credentials_Value \<Rightarrow> http_Request \<Rightarrow> reader option \<Rightarrow> string \<Rightarrow> string \<Rightarrow> string
     \<Rightarrow> http_Request \<times> error option" where
  "toy_Sign creds r body service region signTime =
     (let payload = (case body of None \<Rightarrow> [] | Some b \<Rightarrow> pending b);
          signature = SecretAccessKey creds @ hex_EncodeToString payload
                        @ concat (concat (map snd (Header r)))
      in (r\<lparr>Header :=
               AList.update ''Authorization''
                 [AccessKeyID creds @ ''/'' @ signTime @ ''/'' @ region @ ''/'' @ service
                    @ ''/-/'' @ signature]
                 (Header r)\<rparr>,
          None))"

definition toy_libs :: "(bytes, nat, nat, string) libs" where
  "toy_libs =
     \<lparr>Marshal = (\<lambda>t. if t = [] then ([], Some (lib_error ''empty token'')) else (t, None)),
      Unmarshal = (\<lambda>d. if d = [] then ([], Some (lib_error ''unexpected EOF'')) else (d, None)),
      encrypt = (\<lambda>pub m. if 4 < length m then ([], Some (lib_error ''message too long''))
                          else (of_nat pub # map (\<lambda>b. b + of_nat pub) m, None)),
      decrypt = (\<lambda>priv c. case c of
                             [] \<Rightarrow> ([], Some (lib_error ''decryption error''))
                           | k # c' \<Rightarrow>
                               if k \<noteq> of_nat priv
                               then ([], Some (lib_error ''decryption error''))
                               else (map (\<lambda>b. b - of_nat priv) c', None)),
      sha256Hash = (\<lambda>d. [of_nat (length d), foldr (+) d 0]),
      zstd_EncodeAll = (\<lambda>src dst. dst @ rev src),
      zstd_DecodeAll = (\<lambda>input dst. (dst @ rev input, None)),
      getSubmatches = toy_getSubmatches,
      url_ParseQuery = (\<lambda>q. if q = ''X-Amz-Algorithm=AWS4-HMAC-SHA256''
                               then ([(''X-Amz-Algorithm'', [''AWS4-HMAC-SHA256''])], None)
                               else if q = ''X-Amz-Algorithm=x&X-Amz-Algorithm=AWS4-HMAC-SHA256''
                               then ([(''X-Amz-Algorithm'', [''x'', ''AWS4-HMAC-SHA256''])], None)
                               else ([], None)),
      time_Parse = (\<lambda>layout v. if length v = 16 then (v, None)
                                else ([], Some (lib_error ''cannot parse''))),
      strings_EqualFold = (\<lambda>s t. map toy_lower s = map toy_lower t),
      v4_Sign = toy_Sign\<rparr>"

definition toy_center :: "(nat, nat, unit) Center" where
  "toy_center =
     \<lparr>neofsKeys = (), ownerID = [], wifString = [],
      userAuthKeys_PrivateKey = 3, userAuthKeys_PublicKey = 3\<rparr>"

definition toy_token :: bytes where
  "toy_token = [0x61, 0x6c]"

definition toy_long_token :: bytes where
  "toy_long_token = [1, 2, 3, 4, 5]"

definition toy_request :: "string \<Rightarrow> http_Request" where
  "toy_request authorization =
     \<lparr>Method = ''GET'',
      URL = \<lparr>Scheme = ''http'', URL_Host = ''gw'', Path = ''/bucket/object'', RawQuery = []\<rparr>,
      Header = [(''Authorization'', [authorization]),
                (''X-Amz-Date'', [''20200101T000000Z'']),
                (''User-Agent'', [''curl''])],
      Body = Some (bytes_NewReader [1, 2]),
      Host = ''gw''\<rparr>"

section \<open>encoding/hex: decoding undoes encoding\<close>

lemma fromHexChar_hextable_all:
  "\<forall>n\<in>set [0..<16]. fromHexChar (of_char (hextable ! n)) = Some (of_nat n)"
  by (simp add: upt_conv_Cons hextable_def fromHexChar_def)

lemma fromHexChar_hextable:
  fixes n :: nat
  assumes "n < 16"
  shows "fromHexChar (of_char (hextable ! n)) = Some (of_nat n)"
  using fromHexChar_hextable_all assms by (metis atLeastLessThan_iff set_upt zero_le)

lemma low_nibble_mask: "(0x0f :: byte) = mask 4"
  by (simp add: mask_eq_exp_minus_1)

lemma high_nibble_less: "unat (drop_bit 4 (v::byte)) < 16"
proof -
  have "unat v < 256" using unsigned_less [of v, where 'a = nat] by simp
  then show ?thesis by (simp add: drop_bit_eq_div unat_div_distrib)
qed

lemma low_nibble_less: "unat ((v::byte) AND 0x0f) < 16"
  unfolding low_nibble_mask
  by (simp add: take_bit_eq_mask [symmetric] take_bit_eq_mod unat_mod_distrib)

lemma nibbles_join: "push_bit 4 (drop_bit 4 (v::byte)) OR (v AND 0x0f) = v"
  unfolding low_nibble_mask
  by (rule bit_word_eqI) (auto simp add: bit_simps)

lemma hex_Decode_encoded:
  "hex_Decode (map of_char (hex_EncodeToString src)) = (src, None)"
proof (induction src)
  case Nil
  then show ?case by (simp add: hex_EncodeToString_def)
next
  case (Cons v src)
  have hi: "fromHexChar (of_char (hextable ! unat (drop_bit 4 v))) = Some (drop_bit 4 v)"
    using fromHexChar_hextable [OF high_nibble_less [of v]] by simp
  have lo: "fromHexChar (of_char (hextable ! unat (v AND 0x0f))) = Some (v AND 0x0f)"
    using fromHexChar_hextable [OF low_nibble_less [of v]] by simp
  have "hex_Decode (map of_char (hex_EncodeToString (v # src)))
      = hex_Decode (of_char (hextable ! unat (drop_bit 4 v))
          # of_char (hextable ! unat (v AND 0x0f))
          # map of_char (hex_EncodeToString src))"
    by (simp add: hex_EncodeToString_def)
  also have "\<dots> = ((push_bit 4 (drop_bit 4 v) OR (v AND 0x0f)) # src, None)"
    using Cons.IH by (simp only: hex_Decode.simps hi lo option.case Let_def prod.case)
  finally show ?case by (simp only: nibbles_join)
qed

lemma hex_DecodeString_EncodeToString:
  "hex_DecodeString (hex_EncodeToString src) = (src, None)"
  by (simp add: hex_DecodeString_def hex_Decode_encoded)

section \<open>The credential codec\<close>

lemma packBearerToken_success:
  assumes "packBearerToken L center T = (accessKeyID, secretAccessKey, None)"
  shows "\<exists>data encryptedKeyID.
           Marshal L T = (data, None) \<and>
           encrypt L (userAuthKeys_PublicKey center) (compress L center data)
             = (encryptedKeyID, None) \<and>
           accessKeyID = hex_EncodeToString encryptedKeyID \<and>
           secretAccessKey = hex_EncodeToString (sha256Hash L data)"
proof -
  obtain data e1 where m: "Marshal L T = (data, e1)" by (cases "Marshal L T")
  obtain enc e2 where e: "encrypt L (userAuthKeys_PublicKey center) (compress L center data) = (enc, e2)"
    by (cases "encrypt L (userAuthKeys_PublicKey center) (compress L center data)")
  have e1: "e1 = None"
    using assms m by (cases e1) (simp_all add: packBearerToken_def)
  have e2: "e2 = None"
    using assms m e e1 by (cases e2) (simp_all add: packBearerToken_def)
  show ?thesis
    using assms m e e1 e2 by (simp add: packBearerToken_def Let_def)
qed

lemma unpackBearerToken_success:
  assumes "unpackBearerToken L center accessKeyID = (tok, secretAccessKey, None)"
  shows "\<exists>encryptedKeyID compressedKeyID data bearerToken.
           hex_DecodeString accessKeyID = (encryptedKeyID, None) \<and>
           decrypt L (userAuthKeys_PrivateKey center) encryptedKeyID = (compressedKeyID, None) \<and>
           decompress L center compressedKeyID = (data, None) \<and>
           Unmarshal L data = (bearerToken, None) \<and>
           tok = Some bearerToken \<and>
           secretAccessKey = hex_EncodeToString (sha256Hash L data)"
proof -
  obtain enc e1 where h: "hex_DecodeString accessKeyID = (enc, e1)"
    by (cases "hex_DecodeString accessKeyID")
  obtain cmp e2 where d: "decrypt L (userAuthKeys_PrivateKey center) enc = (cmp, e2)"
    by (cases "decrypt L (userAuthKeys_PrivateKey center) enc")
  obtain data e3 where z: "decompress L center cmp = (data, e3)"
    by (cases "decompress L center cmp")
  obtain bt e4 where u: "Unmarshal L data = (bt, e4)"
    by (cases "Unmarshal L data")
  have e1: "e1 = None"
    using assms h by (cases e1) (simp_all add: unpackBearerToken_def)
  have e2: "e2 = None"
    using assms h d e1 by (cases e2) (simp_all add: unpackBearerToken_def)
  have e3: "e3 = None"
    using assms h d z e1 e2 by (cases e3) (simp_all add: unpackBearerToken_def)
  have e4: "e4 = None"
    using assms h d z u e1 e2 e3 by (cases e4) (simp_all add: unpackBearerToken_def)
  show ?thesis
    using assms h d z u e1 e2 e3 e4 by (simp add: unpackBearerToken_def Let_def)
qed

lemma unpackBearerToken_steps:
  assumes "hex_DecodeString accessKeyID = (encryptedKeyID, None)"
    and "decrypt L (userAuthKeys_PrivateKey center) encryptedKeyID = (compressedKeyID, None)"
    and "decompress L center compressedKeyID = (data, None)"
    and "Unmarshal L data = (bearerToken, None)"
  shows "unpackBearerToken L center accessKeyID
           = (Some bearerToken, hex_EncodeToString (sha256Hash L data), None)"
  using assms by (simp add: unpackBearerToken_def Let_def)

text \<open>
  Claim C2 lets \<open>T\<close> range over every token that serialises. Serialising is not enough
  for \<open>packBearerToken\<close> to produce an access key id: encryption refuses a plaintext that
  is too long for the key, and then \<open>packBearerToken\<close> returns the empty access key id with
  the error, which \<open>unpackBearerToken\<close> does not unpack. On the small instance, the token
  of five bytes serialises, is not packed, and the access key id returned for it does not
  unpack.
\<close>

theorem pack_fails_on_too_long_token:
  "Marshal toy_libs toy_long_token = (toy_long_token, None) \<and>
   packBearerToken toy_libs toy_center toy_long_token
     = ([], [],
        Some (withMessage (lib_error ''message too long'')
                ''failed to encrypt bearer token bytes'')) \<and>
   unpackBearerToken toy_libs toy_center
       (fst (packBearerToken toy_libs toy_center toy_long_token))
     = (None, [],
        Some (withMessage (lib_error ''decryption error'') ''failed to decrypt key ID''))"
  by (simp add: packBearerToken_def unpackBearerToken_def compress_def hex_DecodeString_def
        toy_libs_def toy_center_def toy_long_token_def)

text \<open>
  Claim C2, amended. Let the center hold an RSA key pair (what \<open>encrypt\<close> produces under the
  public key, \<open>decrypt\<close> gives back under the private key), let the zstd decoder undo the
  encoder, and let a serialised token deserialise to a token with the same serialisation.
  Then for every token \<open>T\<close> that \<open>packBearerToken\<close> packs without an error,
  \<open>unpackBearerToken\<close> of the access key id succeeds, its token serialises to the bytes
  \<open>T\<close> serialises to, and its secret access key is the one \<open>packBearerToken\<close> returned.
\<close>

theorem pack_unpack_round_trip:
  assumes keypair:
      "\<And>m c. encrypt L (userAuthKeys_PublicKey center) m = (c, None)
         \<Longrightarrow> decrypt L (userAuthKeys_PrivateKey center) c = (m, None)"
    and zstd: "\<And>d. zstd_DecodeAll L (zstd_EncodeAll L d []) [] = (d, None)"
    and proto:
      "\<And>t d. Marshal L t = (d, None)
         \<Longrightarrow> \<exists>t'. Unmarshal L d = (t', None) \<and> Marshal L t' = (d, None)"
    and pack: "packBearerToken L center T = (accessKeyID, secretAccessKey, None)"
  shows "\<exists>T'. unpackBearerToken L center accessKeyID = (Some T', secretAccessKey, None)
              \<and> Marshal L T' = Marshal L T"
proof -
  from packBearerToken_success [OF pack] obtain data encryptedKeyID where
    m: "Marshal L T = (data, None)" and
    e: "encrypt L (userAuthKeys_PublicKey center) (compress L center data)
          = (encryptedKeyID, None)" and
    ak: "accessKeyID = hex_EncodeToString encryptedKeyID" and
    sk: "secretAccessKey = hex_EncodeToString (sha256Hash L data)"
    by blast
  have h: "hex_DecodeString accessKeyID = (encryptedKeyID, None)"
    by (simp add: ak hex_DecodeString_EncodeToString)
  have d: "decrypt L (userAuthKeys_PrivateKey center) encryptedKeyID
             = (compress L center data, None)"
    by (rule keypair [OF e])
  have z: "decompress L center (compress L center data) = (data, None)"
    by (simp add: decompress_def compress_def zstd)
  from proto [OF m] obtain T' where
    u: "Unmarshal L data = (T', None)" and m': "Marshal L T' = (data, None)"
    by blast
  have "unpackBearerToken L center accessKeyID = (Some T', secretAccessKey, None)"
    unfolding sk by (rule unpackBearerToken_steps [OF h d z u])
  with m m' show ?thesis by simp
qed

lemma toy_pack: "packBearerToken toy_libs toy_center toy_token = (''036f64'', ''02cd'', None)"
  by (simp add: packBearerToken_def toy_libs_def toy_center_def toy_token_def compress_def
      hex_EncodeToString_def hextable_def)

lemma toy_unpack: "unpackBearerToken toy_libs toy_center ''036f64'' = (Some toy_token, ''02cd'', None)"
  by (simp add: unpackBearerToken_def toy_libs_def toy_center_def toy_token_def decompress_def
      hex_EncodeToString_def hextable_def hex_DecodeString_def fromHexChar_def)

lemma toy_keypair:
  "encrypt toy_libs (userAuthKeys_PublicKey toy_center) m = (c, None)
     \<Longrightarrow> decrypt toy_libs (userAuthKeys_PrivateKey toy_center) c = (m, None)"
  by (auto simp add: toy_libs_def toy_center_def comp_def split: if_splits)

lemma toy_zstd: "zstd_DecodeAll toy_libs (zstd_EncodeAll toy_libs d []) [] = (d, None)"
  by (simp add: toy_libs_def)

lemma toy_proto:
  "Marshal toy_libs t = (d, None)
     \<Longrightarrow> \<exists>t'. Unmarshal toy_libs d = (t', None) \<and> Marshal toy_libs t' = (d, None)"
  by (auto simp add: toy_libs_def split: if_splits)

text \<open>The round trip on the small instance: the token \<open>al\<close> under the key 3.\<close>

theorem pack_unpack_round_trip_witness:
  "packBearerToken toy_libs toy_center toy_token = (''036f64'', ''02cd'', None) \<and>
   (\<exists>T'. unpackBearerToken toy_libs toy_center ''036f64'' = (Some T', ''02cd'', None)
         \<and> Marshal toy_libs T' = Marshal toy_libs toy_token)"
  using pack_unpack_round_trip [OF toy_keypair toy_zstd toy_proto toy_pack] toy_pack
  by simp

text \<open>
  Claim C3. In \<open>packBearerToken\<close> the secret access key is the hex encoding of
  \<open>sha256Hash\<close> of the bytes \<open>Marshal\<close> returned, and in \<open>unpackBearerToken\<close> the hex
  encoding of \<open>sha256Hash\<close> of the decompressed bytes handed to \<open>Unmarshal\<close>: in both, the
  serialised token, neither compressed nor encrypted. The secret is the same function
  \<open>\<lambda>data. hex_EncodeToString (sha256Hash L data)\<close> of those bytes.
\<close>

theorem secretAccessKey_is_hash_of_serialized_bytes:
  "(packBearerToken L center T = (accessKeyID, secretAccessKey, None) \<longrightarrow>
      (\<exists>data. Marshal L T = (data, None) \<and>
              secretAccessKey = hex_EncodeToString (sha256Hash L data))) \<and>
   (unpackBearerToken L center accessKeyID' = (Some T', secretAccessKey', None) \<longrightarrow>
      (\<exists>encryptedKeyID compressedKeyID data.
          hex_DecodeString accessKeyID' = (encryptedKeyID, None) \<and>
          decrypt L (userAuthKeys_PrivateKey center) encryptedKeyID = (compressedKeyID, None) \<and>
          decompress L center compressedKeyID = (data, None) \<and>
          Unmarshal L data = (T', None) \<and>
          secretAccessKey' = hex_EncodeToString (sha256Hash L data)))"
proof (intro conjI impI)
  assume "packBearerToken L center T = (accessKeyID, secretAccessKey, None)"
  from packBearerToken_success [OF this]
  show "\<exists>data. Marshal L T = (data, None) \<and>
              secretAccessKey = hex_EncodeToString (sha256Hash L data)"
    by blast
next
  assume "unpackBearerToken L center accessKeyID' = (Some T', secretAccessKey', None)"
  from unpackBearerToken_success [OF this]
  show "\<exists>encryptedKeyID compressedKeyID data.
          hex_DecodeString accessKeyID' = (encryptedKeyID, None) \<and>
          decrypt L (userAuthKeys_PrivateKey center) encryptedKeyID = (compressedKeyID, None) \<and>
          decompress L center compressedKeyID = (data, None) \<and>
          Unmarshal L data = (T', None) \<and>
          secretAccessKey' = hex_EncodeToString (sha256Hash L data)"
    by auto
qed

text \<open>Both halves on the small instance.\<close>

theorem secretAccessKey_is_hash_of_serialized_bytes_witness:
  "packBearerToken toy_libs toy_center toy_token = (''036f64'', ''02cd'', None) \<and>
   unpackBearerToken toy_libs toy_center ''036f64'' = (Some toy_token, ''02cd'', None) \<and>
   Marshal toy_libs toy_token = (toy_token, None) \<and>
   ''02cd'' = hex_EncodeToString (sha256Hash toy_libs toy_token)"
  using secretAccessKey_is_hash_of_serialized_bytes
          [of toy_libs toy_center toy_token "''036f64''" "''02cd''" "''036f64''" toy_token "''02cd''"]
        toy_pack toy_unpack
  by (simp add: toy_libs_def toy_token_def hex_EncodeToString_def hextable_def)

section \<open>The reference request\<close>

lemma referenceRequest_inner:
  "fold (\<lambda>shfn otherRequest.
           if strings_EqualFold L hfn shfn
           then otherRequest\<lparr>Header := AList.update hfn hfvs (Header otherRequest)\<rparr>
           else otherRequest) names (otherRequest :: http_Request)
   = (if \<exists>shfn\<in>set names. strings_EqualFold L hfn shfn
      then otherRequest\<lparr>Header := AList.update hfn hfvs (Header otherRequest)\<rparr>
      else otherRequest)"
  by (induction names arbitrary: otherRequest) auto

lemma referenceRequest_outer:
  "fold (\<lambda>(hfn, hfvs) otherRequest.
           if \<exists>shfn\<in>set names. strings_EqualFold L hfn shfn
           then otherRequest\<lparr>Header := AList.update hfn hfvs (Header otherRequest)\<rparr>
           else otherRequest) hs (otherRequest :: http_Request)
   = otherRequest\<lparr>Header :=
       fold (\<lambda>(hfn, hfvs) h.
               if \<exists>shfn\<in>set names. strings_EqualFold L hfn shfn
               then AList.update hfn hfvs h else h) hs (Header otherRequest)\<rparr>"
  by (induction hs arbitrary: otherRequest) (auto split: prod.splits)

lemma referenceRequest_eq:
  "referenceRequest L request names
   = request\<lparr>Header :=
       fold (\<lambda>(hfn, hfvs) h.
               if \<exists>shfn\<in>set names. strings_EqualFold L hfn shfn
               then AList.update hfn hfvs h else h) (Header request) []\<rparr>"
  by (simp add: referenceRequest_def referenceRequest_inner referenceRequest_outer)

lemma map_of_filtered:
  assumes "distinct (map fst hs)"
  shows "map_of (fold (\<lambda>(hfn, hfvs) h. if P hfn then AList.update hfn hfvs h else h) hs acc) k
         = (if P k \<and> k \<in> fst ` set hs then map_of hs k else map_of acc k)"
  using assms
proof (induction hs arbitrary: acc)
  case Nil
  then show ?case by simp
next
  case (Cons a hs)
  obtain hfn hfvs where a: "a = (hfn, hfvs)" by (cases a)
  from Cons.prems a have d: "distinct (map fst hs)" and n: "hfn \<notin> fst ` set hs"
    by auto
  show ?case
    using n by (auto simp add: a Cons.IH [OF d] update_conv')
qed

text \<open>
  Claim C6. The header map of the reference request built for re-signing holds, under
  each header name of the original request that \<open>strings.EqualFold\<close> matches with one of
  the signed header names, the values the original request has under that name, and holds
  nothing else: a header of the original request that matches no signed header name is
  absent, and a signed header name that matches no header of the request adds nothing.
  (The header map of a request has each name once. \<open>AuthenticationPassed\<close> passes the
  pieces of the \<open>signed_header_fields\<close> capture between semicolons as the names.)
\<close>

theorem referenceRequest_keeps_signed_headers_only:
  assumes "distinct (map fst (Header request))"
  shows "map_of (Header (referenceRequest L request names)) hfn
         = (if \<exists>shfn\<in>set names. strings_EqualFold L hfn shfn
            then map_of (Header request) hfn else None)"
proof -
  have absent: "map_of (Header request) hfn = None" if "hfn \<notin> fst ` set (Header request)"
    using that by (simp add: map_of_eq_None_iff)
  show ?thesis
    using map_of_filtered
            [OF assms, of "\<lambda>hfn. \<exists>shfn\<in>set names. strings_EqualFold L hfn shfn" "[]" hfn]
          absent
    by (simp add: referenceRequest_eq)
qed

text \<open>Signed and present, unsigned, and signed but not present, on the small instance.\<close>

theorem referenceRequest_keeps_signed_headers_only_witness:
  "distinct (map fst (Header (toy_request ''a''))) \<and>
   map_of (Header (referenceRequest toy_libs (toy_request ''a'') [''x-amz-date'', ''host'']))
     ''X-Amz-Date'' = Some [''20200101T000000Z''] \<and>
   map_of (Header (referenceRequest toy_libs (toy_request ''a'') [''x-amz-date'', ''host'']))
     ''User-Agent'' = None \<and>
   map_of (Header (referenceRequest toy_libs (toy_request ''a'') [''x-amz-date'', ''host'']))
     ''Host'' = None"
proof -
  let ?names = "[''x-amz-date'', ''host'']"
  let ?other = "referenceRequest toy_libs (toy_request ''a'') ?names"
  have d: "distinct (map fst (Header (toy_request ''a'')))"
    by (simp add: toy_request_def)
  note filtered = referenceRequest_keeps_signed_headers_only [OF d, of toy_libs ?names]
  have "map_of (Header ?other) ''X-Amz-Date''
        = (if \<exists>shfn\<in>set ?names. strings_EqualFold toy_libs ''X-Amz-Date'' shfn
           then map_of (Header (toy_request ''a'')) ''X-Amz-Date'' else None)"
    by (rule filtered)
  also have "\<dots> = Some [''20200101T000000Z'']"
    by (simp add: toy_request_def toy_libs_def toy_lower_def)
  finally have signed: "map_of (Header ?other) ''X-Amz-Date'' = Some [''20200101T000000Z'']" .
  have "map_of (Header ?other) ''User-Agent''
        = (if \<exists>shfn\<in>set ?names. strings_EqualFold toy_libs ''User-Agent'' shfn
           then map_of (Header (toy_request ''a'')) ''User-Agent'' else None)"
    by (rule filtered)
  also have "\<dots> = None"
    by (simp add: toy_libs_def toy_lower_def)
  finally have unsigned: "map_of (Header ?other) ''User-Agent'' = None" .
  have "map_of (Header ?other) ''Host''
        = (if \<exists>shfn\<in>set ?names. strings_EqualFold toy_libs ''Host'' shfn
           then map_of (Header (toy_request ''a'')) ''Host'' else None)"
    by (rule filtered)
  also have "\<dots> = None"
    by (simp add: toy_request_def toy_libs_def toy_lower_def)
  finally have missing: "map_of (Header ?other) ''Host'' = None" .
  from d signed unsigned missing show ?thesis by blast
qed

section \<open>AuthenticationPassed\<close>

lemmas toy_defs =
  toy_libs_def toy_center_def toy_token_def toy_request_def toy_getSubmatches_def toy_Sign_def
  toy_lower_def

lemmas model_defs =
  AuthenticationPassed_def URL_Query_def Values_Get_def Header_Get_def index_strings_def
  index_string_def len_map_def unpackBearerToken_def decompress_def hex_DecodeString_def
  fromHexChar_def hex_EncodeToString_def hextable_def referenceRequest_def readAndKeepBody_def
  ioutil_ReadAll_def drained_def bytes_NewReader_def NewStaticCredentials_def

text \<open>
  Claim C4 speaks of every request whose query contains the parameter \<open>X-Amz-Algorithm\<close>
  with the value \<open>AWS4-HMAC-SHA256\<close>. The code tests \<open>queryValues.Get\<close>, the first value of
  the parameter. A query that gives the parameter twice, with \<open>AWS4-HMAC-SHA256\<close> as the
  second value, contains the parameter with that value and passes the test: on the small
  instance such a request, correctly signed, is authenticated.
\<close>

theorem repeated_algorithm_parameter_not_rejected:
  "''AWS4-HMAC-SHA256''
     \<in> set (index_strings
              (URL_Query toy_libs
                 \<lparr>Scheme = ''http'', URL_Host = ''gw'', Path = ''/bucket/object'',
                  RawQuery = ''X-Amz-Algorithm=x&X-Amz-Algorithm=AWS4-HMAC-SHA256''\<rparr>)
              ''X-Amz-Algorithm'') \<and>
   AuthenticationPassed toy_libs toy_center
     ((toy_request ''036f64/20200101T000000Z/us/s3/x-amz-date;host/02cd010220200101T000000Z'')
        \<lparr>URL := \<lparr>Scheme = ''http'', URL_Host = ''gw'', Path = ''/bucket/object'',
                  RawQuery = ''X-Amz-Algorithm=x&X-Amz-Algorithm=AWS4-HMAC-SHA256''\<rparr>\<rparr>)
   = ((toy_request ''036f64/20200101T000000Z/us/s3/x-amz-date;host/02cd010220200101T000000Z'')
        \<lparr>URL := \<lparr>Scheme = ''http'', URL_Host = ''gw'', Path = ''/bucket/object'',
                  RawQuery = ''X-Amz-Algorithm=x&X-Amz-Algorithm=AWS4-HMAC-SHA256''\<rparr>\<rparr>,
      Some toy_token, None)"
  by (simp add: model_defs toy_defs)

text \<open>
  Claim C4, amended. A request whose query gives \<open>X-Amz-Algorithm\<close> the value
  \<open>AWS4-HMAC-SHA256\<close> as its first value (what \<open>Get\<close> returns for the parameter) is
  rejected with the error ``pre-signed form of request is not supported'', whatever its
  headers and its body are, and is left as it was.
\<close>

theorem presigned_request_rejected:
  assumes "Values_Get (URL_Query L (URL request)) ''X-Amz-Algorithm'' = ''AWS4-HMAC-SHA256''"
  shows "AuthenticationPassed L center (request\<lparr>Header := h, Body := b\<rparr>)
         = (request\<lparr>Header := h, Body := b\<rparr>, None,
            Some (errors_New ''pre-signed form of request is not supported''))"
  using assms by (simp add: AuthenticationPassed_def)

text \<open>A presigned request with a well-formed Authorization header, and one with no header.\<close>

theorem presigned_request_rejected_witness:
  "AuthenticationPassed toy_libs toy_center
     ((toy_request ''036f64/20200101T000000Z/us/s3/x-amz-date;host/02cd010220200101T000000Z'')
        \<lparr>URL := \<lparr>Scheme = ''http'', URL_Host = ''gw'', Path = ''/bucket/object'',
                  RawQuery = ''X-Amz-Algorithm=AWS4-HMAC-SHA256''\<rparr>\<rparr>)
   = ((toy_request ''036f64/20200101T000000Z/us/s3/x-amz-date;host/02cd010220200101T000000Z'')
        \<lparr>URL := \<lparr>Scheme = ''http'', URL_Host = ''gw'', Path = ''/bucket/object'',
                  RawQuery = ''X-Amz-Algorithm=AWS4-HMAC-SHA256''\<rparr>\<rparr>,
      None, Some (errors_New ''pre-signed form of request is not supported'')) \<and>
   AuthenticationPassed toy_libs toy_center
     ((toy_request [])
        \<lparr>URL := \<lparr>Scheme = ''http'', URL_Host = ''gw'', Path = ''/bucket/object'',
                  RawQuery = ''X-Amz-Algorithm=AWS4-HMAC-SHA256''\<rparr>,
         Header := [], Body := None\<rparr>)
   = ((toy_request [])
        \<lparr>URL := \<lparr>Scheme = ''http'', URL_Host = ''gw'', Path = ''/bucket/object'',
                  RawQuery = ''X-Amz-Algorithm=AWS4-HMAC-SHA256''\<rparr>,
         Header := [], Body := None\<rparr>,
      None, Some (errors_New ''pre-signed form of request is not supported''))"
proof -
  let ?a = "''036f64/20200101T000000Z/us/s3/x-amz-date;host/02cd010220200101T000000Z''"
  let ?u = "\<lparr>Scheme = ''http'', URL_Host = ''gw'', Path = ''/bucket/object'',
             RawQuery = ''X-Amz-Algorithm=AWS4-HMAC-SHA256''\<rparr>"
  have q: "Values_Get (URL_Query toy_libs (URL ((toy_request a)\<lparr>URL := ?u\<rparr>)))
             ''X-Amz-Algorithm'' = ''AWS4-HMAC-SHA256''" for a
    by (simp add: URL_Query_def Values_Get_def index_strings_def toy_libs_def)
  from presigned_request_rejected
         [OF q [of ?a], where center = toy_center and h = "Header (toy_request ?a)"
            and b = "Body (toy_request ?a)"]
       presigned_request_rejected
         [OF q [of "[]"], where center = toy_center and h = "[]" and b = None]
  show ?thesis by (simp add: toy_request_def)
qed

text \<open>
  Claim C5. A request that passes the presigned check and whose header map holds, under
  \<open>Authorization\<close>, a number of values other than one (none: the header is absent;
  two or more: it is repeated) is rejected with the error ``unsupported request: wrong
  length of Authorization header field''.
\<close>

theorem wrong_number_of_Authorization_values_rejected:
  assumes "Values_Get (URL_Query L (URL request)) ''X-Amz-Algorithm'' \<noteq> ''AWS4-HMAC-SHA256''"
    and "length (index_strings (Header request) ''Authorization'') \<noteq> 1"
  shows "AuthenticationPassed L center request
         = (request, None,
            Some (errors_New ''unsupported request: wrong length of Authorization header field''))"
  using assms by (simp add: AuthenticationPassed_def)

text \<open>The header absent, and the header given twice.\<close>

theorem wrong_number_of_Authorization_values_rejected_witness:
  "AuthenticationPassed toy_libs toy_center
     ((toy_request [])\<lparr>Header := [(''X-Amz-Date'', [''20200101T000000Z''])]\<rparr>)
   = ((toy_request [])\<lparr>Header := [(''X-Amz-Date'', [''20200101T000000Z''])]\<rparr>, None,
      Some (errors_New ''unsupported request: wrong length of Authorization header field'')) \<and>
   AuthenticationPassed toy_libs toy_center
     ((toy_request [])\<lparr>Header := [(''Authorization'', [''a'', ''b''])]\<rparr>)
   = ((toy_request [])\<lparr>Header := [(''Authorization'', [''a'', ''b''])]\<rparr>, None,
      Some (errors_New ''unsupported request: wrong length of Authorization header field''))"
proof -
  have q: "Values_Get (URL_Query toy_libs (URL ((toy_request [])\<lparr>Header := h\<rparr>)))
             ''X-Amz-Algorithm'' \<noteq> ''AWS4-HMAC-SHA256''" for h
    by (simp add: URL_Query_def Values_Get_def index_strings_def toy_libs_def toy_request_def)
  have absent:
    "length (index_strings
       (Header ((toy_request [])\<lparr>Header := [(''X-Amz-Date'', [''20200101T000000Z''])]\<rparr>))
       ''Authorization'') \<noteq> 1"
    by (simp add: index_strings_def)
  have twice:
    "length (index_strings
       (Header ((toy_request [])\<lparr>Header := [(''Authorization'', [''a'', ''b''])]\<rparr>))
       ''Authorization'') \<noteq> 1"
    by (simp add: index_strings_def)
  from wrong_number_of_Authorization_values_rejected [OF q absent, of toy_center]
       wrong_number_of_Authorization_values_rejected [OF q twice, of toy_center]
  show ?thesis by simp
qed

lemma strings_Split_not_Nil: "strings_Split s sep \<noteq> []"
  by (induction s) (auto split: list.splits)

lemma errors_Wrap_not_New: "errors_Wrap err message \<noteq> Some (errors_New text)"
  by (cases err) simp_all

lemma AuthenticationPassed_request:
  "fst (AuthenticationPassed L center request) = request \<or>
   fst (AuthenticationPassed L center request) = fst (readAndKeepBody request)"
  by (simp add: AuthenticationPassed_def Let_def split: prod.splits)

lemma readAndKeepBody_frame:
  "Method (fst (readAndKeepBody request)) = Method request \<and>
   URL (fst (readAndKeepBody request)) = URL request \<and>
   Header (fst (readAndKeepBody request)) = Header request \<and>
   Host (fst (readAndKeepBody request)) = Host request"
  by (simp add: readAndKeepBody_def ioutil_ReadAll_def Let_def split: option.splits)

lemma readAndKeepBody_restores:
  assumes "Body request = Some b" and "failure b = None"
  shows "readAndKeepBody request
         = (request\<lparr>Body := Some (bytes_NewReader (pending b))\<rparr>,
            Some (bytes_NewReader (pending b)), None)"
  using assms by (simp add: readAndKeepBody_def ioutil_ReadAll_def)

lemma readAndKeepBody_nil:
  assumes "Body request = None"
  shows "readAndKeepBody request = (request, Some (bytes_NewReader []), None)"
  using assms by (simp add: readAndKeepBody_def)

lemma ioutil_ReadAll_NewReader: "fst (ioutil_ReadAll (bytes_NewReader p)) = (p, None)"
  by (simp add: ioutil_ReadAll_def bytes_NewReader_def)

text \<open>
  Claim C7. Whatever \<open>AuthenticationPassed\<close> returns, it leaves the method, the URL, the
  headers and the host of the request as they were. A request with no body is left with no
  body. When the body of the request reads to its end without an error, the request is
  left with a body that reads, without an error, as exactly the bytes the original body
  held: the original body itself when authentication stopped before reading it, a fresh
  reader over the bytes read otherwise.
\<close>

theorem AuthenticationPassed_leaves_request_readable:
  assumes auth: "AuthenticationPassed L center request = (request', bearerToken, err)"
  shows "Method request' = Method request \<and> URL request' = URL request \<and>
         Header request' = Header request \<and> Host request' = Host request \<and>
         (case Body request of
            None \<Rightarrow> Body request' = None
          | Some b \<Rightarrow>
              failure b = None \<longrightarrow>
              (\<exists>b'. Body request' = Some b' \<and> fst (ioutil_ReadAll b') = (pending b, None)))"
proof -
  from auth have r': "request' = fst (AuthenticationPassed L center request)" by simp
  from AuthenticationPassed_request [of L center request]
  consider (untouched) "request' = request"
    | (kept) "request' = fst (readAndKeepBody request)"
    unfolding r' by blast
  then show ?thesis
  proof cases
    case untouched
    then show ?thesis
      by (simp add: ioutil_ReadAll_def split: option.splits)
  next
    case kept
    have frame: "Method request' = Method request \<and> URL request' = URL request \<and>
                 Header request' = Header request \<and> Host request' = Host request"
      unfolding kept by (rule readAndKeepBody_frame)
    show ?thesis
    proof (cases "Body request")
      case None
      with kept readAndKeepBody_nil [OF None] show ?thesis by simp
    next
      case (Some b)
      have "\<exists>b'. Body request' = Some b' \<and> fst (ioutil_ReadAll b') = (pending b, None)"
        if "failure b = None"
        using kept readAndKeepBody_restores [OF Some that]
        by (simp add: ioutil_ReadAll_NewReader)
      with frame Some show ?thesis by simp
    qed
  qed
qed

text \<open>
  A request signed with the credentials \<open>packBearerToken\<close> gives for the token of the small
  instance is authenticated, and the token is returned.
\<close>

lemma toy_accepts:
  "AuthenticationPassed toy_libs toy_center
     (toy_request ''036f64/20200101T000000Z/us/s3/x-amz-date;host/02cd010220200101T000000Z'')
   = (toy_request ''036f64/20200101T000000Z/us/s3/x-amz-date;host/02cd010220200101T000000Z'',
      Some toy_token, None)"
  by (simp add: model_defs toy_defs)

text \<open>The body of the authenticated request of the small instance.\<close>

theorem AuthenticationPassed_leaves_request_readable_witness:
  "Body (toy_request ''036f64/20200101T000000Z/us/s3/x-amz-date;host/02cd010220200101T000000Z'')
     = Some (bytes_NewReader [1, 2]) \<and>
   failure (bytes_NewReader [1, 2]) = None \<and>
   AuthenticationPassed toy_libs toy_center
     (toy_request ''036f64/20200101T000000Z/us/s3/x-amz-date;host/02cd010220200101T000000Z'')
   = (toy_request ''036f64/20200101T000000Z/us/s3/x-amz-date;host/02cd010220200101T000000Z'',
      Some toy_token, None) \<and>
   (\<exists>b'. Body (toy_request
                 ''036f64/20200101T000000Z/us/s3/x-amz-date;host/02cd010220200101T000000Z'')
            = Some b' \<and>
         fst (ioutil_ReadAll b') = ([1, 2], None))"
  using AuthenticationPassed_leaves_request_readable [OF toy_accepts] toy_accepts
  by (simp add: toy_request_def bytes_NewReader_def)

lemma errors_Wrap_message:
  "errors_Wrap err message = Some (withMessage e message') \<Longrightarrow> message' = message"
  by (cases err) simp_all

text \<open>
  Claim C10. For a request whose body is \<open>nil\<close>, \<open>readAndKeepBody\<close> returns the request
  untouched, a reader that holds no bytes, and no error. \<open>AuthenticationPassed\<close> therefore
  never returns the error ``failed to read out request body'' for such a request; and
  when the steps before the body pass (the request is not presigned, it has one
  Authorization value with six captures, its date parses and its access key id unpacks),
  the signer is called on the reference request with the empty reader as the payload, and
  the result of \<open>AuthenticationPassed\<close> is what follows from the signer's answer: the
  signer's error wrapped, or the outcome of comparing the two signatures.
\<close>

theorem nil_body_signed_as_empty_payload:
  assumes nil: "Body request = None"
  shows "readAndKeepBody request = (request, Some (bytes_NewReader []), None) \<and>
         pending (bytes_NewReader []) = [] \<and>
         snd (snd (AuthenticationPassed L center request))
           \<noteq> Some (withMessage e ''failed to read out request body'') \<and>
         (Values_Get (URL_Query L (URL request)) ''X-Amz-Algorithm'' \<noteq> ''AWS4-HMAC-SHA256'' \<and>
          index_strings (Header request) ''Authorization'' = [authorization] \<and>
          getSubmatches L authorization = sms1 \<and>
          len_map sms1 = 6 \<and>
          strings_Split (index_string sms1 ''signed_header_fields'') CHR '';''
            = signedHeaderFieldsNames \<and>
          time_Parse L ''20060102T150405Z'' (Header_Get (Header request) ''X-Amz-Date'')
            = (signatureDateTime, None) \<and>
          unpackBearerToken L center (index_string sms1 ''access_key_id'')
            = (bearerToken, secretAccessKey, None)
          \<longrightarrow>
          AuthenticationPassed L center request
          = (case v4_Sign L
                    (NewStaticCredentials (index_string sms1 ''access_key_id'')
                       secretAccessKey [])
                    (referenceRequest L request signedHeaderFieldsNames)
                    (Some (bytes_NewReader []))
                    (index_string sms1 ''service'') (index_string sms1 ''region'')
                    signatureDateTime of
               (signedRequest, Some signError) \<Rightarrow>
                 (request, None,
                  Some (withMessage signError ''failed to sign temporary HTTP request''))
             | (signedRequest, None) \<Rightarrow>
                 if index_string sms1 ''v4_signature''
                      = index_string
                          (getSubmatches L (Header_Get (Header signedRequest) ''Authorization''))
                          ''v4_signature''
                 then (request, bearerToken, None)
                 else (request, None, None)))"
proof (intro conjI impI)
  show "readAndKeepBody request = (request, Some (bytes_NewReader []), None)"
    by (rule readAndKeepBody_nil [OF nil])
  show "pending (bytes_NewReader []) = []"
    by (simp add: bytes_NewReader_def)
  show "snd (snd (AuthenticationPassed L center request))
          \<noteq> Some (withMessage e ''failed to read out request body'')"
    by (auto simp add: AuthenticationPassed_def Let_def readAndKeepBody_nil [OF nil]
          split: prod.splits dest: errors_Wrap_message)
next
  assume pre:
    "Values_Get (URL_Query L (URL request)) ''X-Amz-Algorithm'' \<noteq> ''AWS4-HMAC-SHA256'' \<and>
     index_strings (Header request) ''Authorization'' = [authorization] \<and>
     getSubmatches L authorization = sms1 \<and>
     len_map sms1 = 6 \<and>
     strings_Split (index_string sms1 ''signed_header_fields'') CHR '';''
       = signedHeaderFieldsNames \<and>
     time_Parse L ''20060102T150405Z'' (Header_Get (Header request) ''X-Amz-Date'')
       = (signatureDateTime, None) \<and>
     unpackBearerToken L center (index_string sms1 ''access_key_id'')
       = (bearerToken, secretAccessKey, None)"
  then have names: "signedHeaderFieldsNames \<noteq> []"
    using strings_Split_not_Nil by metis
  have other: "(referenceRequest L request signedHeaderFieldsNames)\<lparr>Body := None\<rparr>
                 = referenceRequest L request signedHeaderFieldsNames"
    by (simp add: referenceRequest_eq nil)
  show "AuthenticationPassed L center request
          = (case v4_Sign L
                    (NewStaticCredentials (index_string sms1 ''access_key_id'')
                       secretAccessKey [])
                    (referenceRequest L request signedHeaderFieldsNames)
                    (Some (bytes_NewReader []))
                    (index_string sms1 ''service'') (index_string sms1 ''region'')
                    signatureDateTime of
               (signedRequest, Some signError) \<Rightarrow>
                 (request, None,
                  Some (withMessage signError ''failed to sign temporary HTTP request''))
             | (signedRequest, None) \<Rightarrow>
                 if index_string sms1 ''v4_signature''
                      = index_string
                          (getSubmatches L (Header_Get (Header signedRequest) ''Authorization''))
                          ''v4_signature''
                 then (request, bearerToken, None)
                 else (request, None, None))"
    using pre names
    by (auto simp add: AuthenticationPassed_def readAndKeepBody_nil [OF nil] nil other
          split: prod.splits option.splits)
qed

text \<open>A request with no body, signed over the empty payload, is authenticated.\<close>

theorem nil_body_signed_as_empty_payload_witness:
  "Body ((toy_request ''036f64/20200101T000000Z/us/s3/x-amz-date;host/02cd20200101T000000Z'')
           \<lparr>Body := None\<rparr>) = None \<and>
   readAndKeepBody
     ((toy_request ''036f64/20200101T000000Z/us/s3/x-amz-date;host/02cd20200101T000000Z'')
        \<lparr>Body := None\<rparr>)
   = ((toy_request ''036f64/20200101T000000Z/us/s3/x-amz-date;host/02cd20200101T000000Z'')
        \<lparr>Body := None\<rparr>,
      Some (bytes_NewReader []), None) \<and>
   AuthenticationPassed toy_libs toy_center
     ((toy_request ''036f64/20200101T000000Z/us/s3/x-amz-date;host/02cd20200101T000000Z'')
        \<lparr>Body := None\<rparr>)
   = ((toy_request ''036f64/20200101T000000Z/us/s3/x-amz-date;host/02cd20200101T000000Z'')
        \<lparr>Body := None\<rparr>,
      Some toy_token, None)"
proof -
  let ?a = "''036f64/20200101T000000Z/us/s3/x-amz-date;host/02cd20200101T000000Z''"
  let ?r = "(toy_request ?a)\<lparr>Body := None\<rparr>"
  let ?sms1 = "getSubmatches toy_libs ?a"
  let ?names = "[''x-amz-date'', ''host'']"
  let ?date = "''20200101T000000Z''"
  have nil: "Body ?r = None" by simp
  note claim = nil_body_signed_as_empty_payload
    [OF nil, where L = toy_libs and center = toy_center and authorization = ?a
       and ?sms1.0 = ?sms1 and signedHeaderFieldsNames = ?names
       and signatureDateTime = ?date and bearerToken = "Some toy_token"
       and secretAccessKey = "''02cd''"]
  have q: "Values_Get (URL_Query toy_libs (URL ?r)) ''X-Amz-Algorithm'' \<noteq> ''AWS4-HMAC-SHA256''"
    by (simp add: model_defs toy_defs)
  have a: "index_strings (Header ?r) ''Authorization'' = [?a]"
    by (simp add: model_defs toy_defs)
  have six: "len_map ?sms1 = 6"
    by (simp add: model_defs toy_defs)
  have names: "strings_Split (index_string ?sms1 ''signed_header_fields'') CHR '';'' = ?names"
    by (simp add: model_defs toy_defs)
  have date: "time_Parse toy_libs ''20060102T150405Z'' (Header_Get (Header ?r) ''X-Amz-Date'')
                = (?date, None)"
    by (simp add: model_defs toy_defs)
  have unpack: "unpackBearerToken toy_libs toy_center (index_string ?sms1 ''access_key_id'')
                  = (Some toy_token, ''02cd'', None)"
    by (simp add: model_defs toy_defs)
  from claim q a six names date unpack
  have "AuthenticationPassed toy_libs toy_center ?r
        = (case v4_Sign toy_libs
                  (NewStaticCredentials (index_string ?sms1 ''access_key_id'') ''02cd'' [])
                  (referenceRequest toy_libs ?r ?names)
                  (Some (bytes_NewReader []))
                  (index_string ?sms1 ''service'') (index_string ?sms1 ''region'') ?date of
             (signedRequest, Some signError) \<Rightarrow>
               (?r, None, Some (withMessage signError ''failed to sign temporary HTTP request''))
           | (signedRequest, None) \<Rightarrow>
               if index_string ?sms1 ''v4_signature''
                    = index_string
                        (getSubmatches toy_libs
                           (Header_Get (Header signedRequest) ''Authorization''))
                        ''v4_signature''
               then (?r, Some toy_token, None)
               else (?r, None, None))"
    by blast
  also have "\<dots> = (?r, Some toy_token, None)"
    by (simp add: model_defs toy_defs)
  finally have auth: "AuthenticationPassed toy_libs toy_center ?r = (?r, Some toy_token, None)" .
  from claim have "readAndKeepBody ?r = (?r, Some (bytes_NewReader []), None)"
    by blast
  with nil auth show ?thesis by blast
qed

text \<open>
  Claim C1 says that a request whose recomputed signature differs from the signature it
  presents is rejected with an error. The code does not do that. When every step before
  the comparison passes and the two signatures differ, \<open>AuthenticationPassed\<close> returns
  \<open>errors.Wrap(err, ...)\<close> with the \<open>err\<close> of the signer, which is \<open>nil\<close> at that point, so
  the error it returns is \<open>nil\<close>: the result is no token and no error.
\<close>

theorem signature_mismatch_returns_no_error:
  assumes "Values_Get (URL_Query L (URL request)) ''X-Amz-Algorithm'' \<noteq> ''AWS4-HMAC-SHA256''"
    and "index_strings (Header request) ''Authorization'' = [authorization]"
    and "getSubmatches L authorization = sms1"
    and "len_map sms1 = 6"
    and "strings_Split (index_string sms1 ''signed_header_fields'') CHR '';''
           = signedHeaderFieldsNames"
    and "time_Parse L ''20060102T150405Z'' (Header_Get (Header request) ''X-Amz-Date'')
           = (signatureDateTime, None)"
    and "unpackBearerToken L center (index_string sms1 ''access_key_id'')
           = (bearerToken, secretAccessKey, None)"
    and "readAndKeepBody request = (request', body, None)"
    and "v4_Sign L
           (NewStaticCredentials (index_string sms1 ''access_key_id'') secretAccessKey [])
           ((referenceRequest L request signedHeaderFieldsNames)
              \<lparr>Body := map_option drained (Body request)\<rparr>)
           body (index_string sms1 ''service'') (index_string sms1 ''region'')
           signatureDateTime
         = (signedRequest, None)"
    and "index_string sms1 ''v4_signature''
           \<noteq> index_string (getSubmatches L (Header_Get (Header signedRequest) ''Authorization''))
                 ''v4_signature''"
  shows "AuthenticationPassed L center request = (request', None, None)"
proof -
  have "signedHeaderFieldsNames \<noteq> []"
    using assms(5) strings_Split_not_Nil by metis
  then show ?thesis
    using assms by (simp add: AuthenticationPassed_def)
qed

text \<open>
  On the small instance: the correctly signed request is authenticated; the same request
  with the last character of its signature changed gets neither a token nor an error.
\<close>

theorem signature_mismatch_returns_no_error_witness:
  "AuthenticationPassed toy_libs toy_center
     (toy_request ''036f64/20200101T000000Z/us/s3/x-amz-date;host/02cd010220200101T000000Z'')
   = (toy_request ''036f64/20200101T000000Z/us/s3/x-amz-date;host/02cd010220200101T000000Z'',
      Some toy_token, None) \<and>
   AuthenticationPassed toy_libs toy_center
     (toy_request ''036f64/20200101T000000Z/us/s3/x-amz-date;host/02cd010220200101T000000Y'')
   = (toy_request ''036f64/20200101T000000Z/us/s3/x-amz-date;host/02cd010220200101T000000Y'',
      None, None)"
proof -
  have "AuthenticationPassed toy_libs toy_center
     (toy_request ''036f64/20200101T000000Z/us/s3/x-amz-date;host/02cd010220200101T000000Y'')
   = (toy_request ''036f64/20200101T000000Z/us/s3/x-amz-date;host/02cd010220200101T000000Y'',
      None, None)"
    apply (rule signature_mismatch_returns_no_error)
             apply (simp add: model_defs toy_defs)
            apply (simp add: model_defs toy_defs)
           apply (simp add: model_defs toy_defs)
          apply (simp add: model_defs toy_defs)
         apply (simp add: model_defs toy_defs)
        apply (simp add: model_defs toy_defs)
       apply (simp add: model_defs toy_defs)
      apply (simp add: model_defs toy_defs)
     apply (simp add: model_defs toy_defs)
    apply (simp add: model_defs toy_defs)
    done
  with toy_accepts show ?thesis by simp
qed

text \<open>
  On the small instance, a request whose Authorization header has an empty list of signed
  headers, signed over the payload alone, is authenticated.
\<close>

lemma empty_SignedHeaders_accepted:
  "AuthenticationPassed toy_libs toy_center (toy_request ''036f64/20200101T000000Z/us/s3//02cd0102'')
   = (toy_request ''036f64/20200101T000000Z/us/s3//02cd0102'', Some toy_token, None)"
  by (simp add: model_defs toy_defs)

lemma wrong_format_error_never_returned:
  "snd (snd (AuthenticationPassed L center request))
     \<noteq> Some (errors_New ''wrong format of signed headers part'')"
  by (simp add: AuthenticationPassed_def Let_def strings_Split_not_Nil errors_Wrap_not_New
        split: prod.splits)

text \<open>
  Claim C8 says that a header whose list of signed header names is empty is rejected.
  The code tests \<open>len(signedHeaderFieldsNames) == 0\<close>, but \<open>strings.Split\<close> never returns
  an empty list: an empty \<open>SignedHeaders\<close> capture splits into the one piece \<open>""\<close>. So the
  error ``wrong format of signed headers part'' is never returned, for any request and
  any behaviour of the libraries, and the request of the small instance with no signed
  header names is authenticated.
\<close>

theorem empty_signed_headers_check_never_rejects:
  "strings_Split s sep \<noteq> [] \<and>
   strings_Split [] CHR '';'' = [[]] \<and>
   snd (snd (AuthenticationPassed L center request))
     \<noteq> Some (errors_New ''wrong format of signed headers part'') \<and>
   index_string (getSubmatches toy_libs ''036f64/20200101T000000Z/us/s3//02cd0102'')
     ''signed_header_fields'' = [] \<and>
   AuthenticationPassed toy_libs toy_center (toy_request ''036f64/20200101T000000Z/us/s3//02cd0102'')
   = (toy_request ''036f64/20200101T000000Z/us/s3//02cd0102'', Some toy_token, None)"
proof -
  have "index_string (getSubmatches toy_libs ''036f64/20200101T000000Z/us/s3//02cd0102'')
          ''signed_header_fields'' = []"
    by (simp add: index_string_def toy_libs_def toy_getSubmatches_def)
  with strings_Split_not_Nil [of s sep] wrong_format_error_never_returned [of L center request]
       empty_SignedHeaders_accepted
  show ?thesis by simp
qed

end
